theory Spec2Isabelle
  imports Main "HOL-Library.Word"
begin

section \<open>Go values shared by the embedded packages\<close>

text \<open>
  A Go \<^verbatim>\<open>[]byte\<close> whose nil-ness is never observed is a list of bytes; where the code
  returns or tests a nil slice (the finder) the slice is a \<open>bytes option\<close>, \<open>None\<close> being nil.
  An \<^verbatim>\<open>error\<close> return is an \<open>error option\<close>, \<open>None\<close> being nil.
\<close>

type_synonym byte = "8 word"
type_synonym bytes = "byte list"

datatype error =
    ErrorString string         \<comment> \<open>\<^verbatim>\<open>errors.New(msg)\<close>, \<^verbatim>\<open>fmt.Errorf(msg)\<close> without \<^verbatim>\<open>%w\<close>\<close>
  | Errorf_w string error      \<comment> \<open>\<^verbatim>\<open>fmt.Errorf(prefix + "%w", err)\<close>\<close>
  | Wrapf error string         \<comment> \<open>\<^verbatim>\<open>errors.Wrapf(err, msg)\<close> of pkg/errors\<close>
  | ErrDoesNotExist            \<comment> \<open>\<^verbatim>\<open>backend.ErrDoesNotExist\<close>\<close>
  | ErrObjectNotExist          \<comment> \<open>\<^verbatim>\<open>storage.ErrObjectNotExist\<close>\<close>
  | EOF                        \<comment> \<open>\<^verbatim>\<open>io.EOF\<close>\<close>


text \<open>A call either returns or panics (an index out of range).\<close>

datatype 'a outcome = Returns 'a | Panics

text \<open>
  An \<^verbatim>\<open>io.Reader\<close> is either \<^verbatim>\<open>bytes.NewReader(b)\<close> (also under \<^verbatim>\<open>ioutil.NopCloser\<close>) or a
  reader \<open>'x\<close> handed in from outside.
\<close>

datatype 'x io_Reader = BytesReader bytes | ExtReader 'x

type_synonym KeyPath = "string list"

text \<open>\<^verbatim>\<open>strings.Join(elems, sep)\<close>.\<close>

fun strings_Join :: "string list \<Rightarrow> string \<Rightarrow> string" where
  "strings_Join [] sep = []"
| "strings_Join [x] sep = x"
| "strings_Join (x # y # ys) sep = x @ sep @ strings_Join (y # ys) sep"


section \<open>The cache decorator (package cache, \<^verbatim>\<open>readerWriter\<close>)\<close>

text \<open>
  The three fields of \<^verbatim>\<open>readerWriter\<close> are interface values. Each interface is the record of
  its methods, every method a transformer of one store \<open>'s\<close> that stands for everything the
  three collaborators own (so that they may share state). A \<^verbatim>\<open>backend.AppendTracker\<close>
  is a value of \<open>'t\<close>.
\<close>

record ('s, 'x) RawReader =
  rr_List :: "KeyPath \<Rightarrow> 's \<Rightarrow> (string list \<times> error option) \<times> 's"
  rr_Read :: "string \<Rightarrow> KeyPath \<Rightarrow> bool \<Rightarrow> 's \<Rightarrow> (error + ('x io_Reader \<times> int)) \<times> 's"
  rr_ReadRange :: "string \<Rightarrow> KeyPath \<Rightarrow> 64 word \<Rightarrow> bytes \<Rightarrow> 's \<Rightarrow> (error option \<times> bytes) \<times> 's"
  rr_Shutdown :: "'s \<Rightarrow> 's"

record ('s, 'x, 't) RawWriter =
  rw_Write :: "string \<Rightarrow> KeyPath \<Rightarrow> 'x io_Reader \<Rightarrow> int \<Rightarrow> bool \<Rightarrow> 's \<Rightarrow> error option \<times> 's"
  rw_Append :: "string \<Rightarrow> KeyPath \<Rightarrow> 't \<Rightarrow> bytes \<Rightarrow> 's \<Rightarrow> ('t \<times> error option) \<times> 's"
  rw_CloseAppend :: "'t \<Rightarrow> 's \<Rightarrow> error option \<times> 's"

record 's Cache =
  c_Store :: "string list \<Rightarrow> bytes list \<Rightarrow> 's \<Rightarrow> 's"
  c_Fetch :: "string list \<Rightarrow> 's \<Rightarrow> (string list \<times> bytes list \<times> string list) \<times> 's"
  c_Stop :: "'s \<Rightarrow> 's"

record ('s, 'x, 't) readerWriter =
  nextReader :: "('s, 'x) RawReader"
  nextWriter :: "('s, 'x, 't) RawWriter"
  cache :: "'s Cache"

text \<open>
  The calls a function makes on its collaborators, in order, are kept beside the store.
\<close>

record ('s, 'c) world =
  st :: 's
  calls :: "'c list"

definition did :: "'c \<Rightarrow> 's \<Rightarrow> ('s, 'c) world \<Rightarrow> ('s, 'c) world" where
  "did c s w = \<lparr>st = s, calls = calls w @ [c]\<rparr>"

text \<open>The calls of the cache decorator.\<close>

datatype call =
    CacheFetch "string list"
  | CacheStore "string list" "bytes list"
  | NextRead string KeyPath bool
  | NextReadRange string KeyPath "64 word" bytes
  | NextWrite string KeyPath bytes int bool
  | NextList KeyPath
  | NextAppend string KeyPath bytes
  | NextCloseAppend
  | NextShutdown
  | CacheStop

text \<open>The calls that consult or modify the cache.\<close>

definition is_cache_call :: "call \<Rightarrow> bool" where
  "is_cache_call c = (case c of CacheFetch ks \<Rightarrow> True | CacheStore ks vs \<Rightarrow> True | _ \<Rightarrow> False)"

definition key :: "KeyPath \<Rightarrow> string \<Rightarrow> string" where
  "key keypath name = strings_Join keypath '':'' @ '':'' @ name"

text \<open>
  \<^verbatim>\<open>tempo_io.ReadAllWithEstimate\<close> (package pkg/io) is a parameter \<open>rall\<close> of the model: it
  reads a reader to its end and returns the bytes and the error.

  \<open>Read_delegate\<close> is the part of \<^verbatim>\<open>Read\<close> after the cache lookup: the
  call of the next reader, \<^verbatim>\<open>ReadAllWithEstimate\<close>, and the store into the cache.
\<close>

definition Read_delegate ::
  "('x io_Reader \<Rightarrow> int \<Rightarrow> bytes \<times> error option) \<Rightarrow> ('s, 'x, 't) readerWriter \<Rightarrow> string \<Rightarrow> KeyPath \<Rightarrow>
     bool \<Rightarrow> string \<Rightarrow> ('s, call) world \<Rightarrow> ('x io_Reader option \<times> int \<times> error option) outcome \<times> ('s, call) world" where
  "Read_delegate rall r name keypath shouldCache k w =
     (case rr_Read (nextReader r) name keypath False (st w) of
        (Inl err, s1) \<Rightarrow> (Returns (None, 0, Some err), did (NextRead name keypath False) s1 w)
      | (Inr (object, sz), s1) \<Rightarrow>
          (let w1 = did (NextRead name keypath False) s1 w in
           case rall object sz of
             (b, err) \<Rightarrow>
               (Returns (Some (BytesReader b), sz, err),
                if err = None \<and> shouldCache
                then did (CacheStore [k] [b]) (c_Store (cache r) [k] [b] (st w1)) w1
                else w1)))"

definition readerWriter_Read ::
  "('x io_Reader \<Rightarrow> int \<Rightarrow> bytes \<times> error option) \<Rightarrow> ('s, 'x, 't) readerWriter \<Rightarrow> string \<Rightarrow> KeyPath \<Rightarrow>
     bool \<Rightarrow> ('s, call) world \<Rightarrow> ('x io_Reader option \<times> int \<times> error option) outcome \<times> ('s, call) world" where
  "readerWriter_Read rall r name keypath shouldCache w =
     (if shouldCache then
        (let k = key keypath name in
         case c_Fetch (cache r) [k] (st w) of
           ((found, vals, missing), s1) \<Rightarrow>
             (let w1 = did (CacheFetch [k]) s1 w in
              if length found > 0 then
                (case vals of
                   [] \<Rightarrow> (Panics, w1)
                 | v # vs \<Rightarrow> (Returns (Some (BytesReader v), int (length v), None), w1))
              else Read_delegate rall r name keypath shouldCache k w1))
      else Read_delegate rall r name keypath shouldCache [] w)"

definition readerWriter_List ::
  "('s, 'x, 't) readerWriter \<Rightarrow> KeyPath \<Rightarrow> ('s, call) world \<Rightarrow>
     (string list \<times> error option) \<times> ('s, call) world" where
  "readerWriter_List r keypath w =
     (case rr_List (nextReader r) keypath (st w) of
        (res, s1) \<Rightarrow> (res, did (NextList keypath) s1 w))"

definition readerWriter_ReadRange ::
  "('s, 'x, 't) readerWriter \<Rightarrow> string \<Rightarrow> KeyPath \<Rightarrow> 64 word \<Rightarrow> bytes \<Rightarrow> ('s, call) world \<Rightarrow>
     (error option \<times> bytes) \<times> ('s, call) world" where
  "readerWriter_ReadRange r name keypath offset buffer w =
     (case rr_ReadRange (nextReader r) name keypath offset buffer (st w) of
        (res, s1) \<Rightarrow> (res, did (NextReadRange name keypath offset buffer) s1 w))"

definition readerWriter_Shutdown ::
  "('s, 'x, 't) readerWriter \<Rightarrow> ('s, call) world \<Rightarrow> ('s, call) world" where
  "readerWriter_Shutdown r w =
     (let w1 = did NextShutdown (rr_Shutdown (nextReader r) (st w)) w in
      did CacheStop (c_Stop (cache r) (st w1)) w1)"

definition readerWriter_Write ::
  "('x io_Reader \<Rightarrow> int \<Rightarrow> bytes \<times> error option) \<Rightarrow> ('s, 'x, 't) readerWriter \<Rightarrow> string \<Rightarrow> KeyPath \<Rightarrow>
     'x io_Reader \<Rightarrow> int \<Rightarrow> bool \<Rightarrow> ('s, call) world \<Rightarrow> error option \<times> ('s, call) world" where
  "readerWriter_Write rall r name keypath data sz shouldCache w =
     (case rall data sz of
        (b, Some err) \<Rightarrow> (Some err, w)
      | (b, None) \<Rightarrow>
          (let w1 = (if shouldCache
                     then did (CacheStore [key keypath name] [b])
                            (c_Store (cache r) [key keypath name] [b] (st w)) w
                     else w) in
           case rw_Write (nextWriter r) name keypath (BytesReader b) (int (length b)) False (st w1) of
             (res, s2) \<Rightarrow> (res, did (NextWrite name keypath b (int (length b)) False) s2 w1)))"

definition readerWriter_Append ::
  "('s, 'x, 't) readerWriter \<Rightarrow> string \<Rightarrow> KeyPath \<Rightarrow> 't \<Rightarrow> bytes \<Rightarrow> ('s, call) world \<Rightarrow>
     ('t \<times> error option) \<times> ('s, call) world" where
  "readerWriter_Append r name keypath tracker buffer w =
     (case rw_Append (nextWriter r) name keypath tracker buffer (st w) of
        (res, s1) \<Rightarrow> (res, did (NextAppend name keypath buffer) s1 w))"

definition readerWriter_CloseAppend ::
  "('s, 'x, 't) readerWriter \<Rightarrow> 't \<Rightarrow> ('s, call) world \<Rightarrow> error option \<times> ('s, call) world" where
  "readerWriter_CloseAppend r tracker w =
     (case rw_CloseAppend (nextWriter r) tracker (st w) of
        (res, s1) \<Rightarrow> (res, did NextCloseAppend s1 w))"

text \<open>
  An in-memory cache and an in-memory object store over one store, for running the
  decorator: the cache is an association list from keys to values, the object store one
  from (keypath, name) to contents.
\<close>

record mem =
  cached :: "(string \<times> bytes) list"
  objects :: "((KeyPath \<times> string) \<times> bytes) list"

definition mem_Cache :: "mem Cache" where
  "mem_Cache =
     \<lparr>c_Store = (\<lambda>ks vs s. s\<lparr>cached := zip ks vs @ cached s\<rparr>),
      c_Fetch = (\<lambda>ks s.
         ((filter (\<lambda>k. map_of (cached s) k \<noteq> None) ks,
           map (\<lambda>k. the (map_of (cached s) k)) (filter (\<lambda>k. map_of (cached s) k \<noteq> None) ks),
           filter (\<lambda>k. map_of (cached s) k = None) ks), s)),
      c_Stop = (\<lambda>s. s)\<rparr>"

definition mem_RawReader :: "(mem, unit) RawReader" where
  "mem_RawReader =
     \<lparr>rr_List = (\<lambda>keypath s.
         ((map (\<lambda>e. snd (fst e)) (filter (\<lambda>e. fst (fst e) = keypath) (objects s)), None), s)),
      rr_Read = (\<lambda>name keypath shouldCache s.
         (case map_of (objects s) (keypath, name) of
            None \<Rightarrow> (Inl ErrDoesNotExist, s)
          | Some b \<Rightarrow> (Inr (BytesReader b, int (length b)), s))),
      rr_ReadRange = (\<lambda>name keypath offset buffer s.
         (case map_of (objects s) (keypath, name) of
            None \<Rightarrow> ((Some ErrDoesNotExist, buffer), s)
          | Some b \<Rightarrow> ((None, take (length buffer) (drop (unat offset) b)), s))),
      rr_Shutdown = (\<lambda>s. s)\<rparr>"

definition mem_RawWriter :: "(mem, unit, unit) RawWriter" where
  "mem_RawWriter =
     \<lparr>rw_Write = (\<lambda>name keypath data sz shouldCache s.
         (case data of
            BytesReader b \<Rightarrow> (None, s\<lparr>objects := ((keypath, name), b) # objects s\<rparr>)
          | ExtReader x \<Rightarrow> (Some (ErrorString ''unreadable''), s))),
      rw_Append = (\<lambda>name keypath tracker buffer s.
         ((tracker, None), s\<lparr>objects := ((keypath, name), buffer) # objects s\<rparr>)),
      rw_CloseAppend = (\<lambda>tracker s. (None, s))\<rparr>"

definition mem_rw :: "(mem, unit, unit) readerWriter" where
  "mem_rw = \<lparr>nextReader = mem_RawReader, nextWriter = mem_RawWriter, cache = mem_Cache\<rparr>"

definition mem_rall :: "unit io_Reader \<Rightarrow> int \<Rightarrow> bytes \<times> error option" where
  "mem_rall data sz =
     (case data of
        BytesReader b \<Rightarrow> (b, None)
      | ExtReader x \<Rightarrow> ([], Some (ErrorString ''unexpected EOF'')))"

definition mem0 :: "(mem, call) world" where
  "mem0 = \<lparr>st = \<lparr>cached = [], objects = [(([''t'', ''b''], ''index''), [1, 2, 3])]\<rparr>, calls = []\<rparr>"


section \<open>The paged finder (package encoding, finder_paged.go)\<close>

text \<open>
  The finder returns and tests nil slices, so a \<^verbatim>\<open>[]byte\<close> is a \<open>bytes option\<close> here
  (\<open>None\<close> is nil); \<^verbatim>\<open>common.ID\<close> is a \<^verbatim>\<open>[]byte\<close>. \<^verbatim>\<open>bytes.Equal\<close> takes a nil slice for
  an empty one.
\<close>

type_synonym gobytes = "bytes option"

definition bytes_Equal :: "gobytes \<Rightarrow> gobytes \<Rightarrow> bool" where
  "bytes_Equal a b =
     ((case a of None \<Rightarrow> [] | Some x \<Rightarrow> x) = (case b of None \<Rightarrow> [] | Some y \<Rightarrow> y))"

text \<open>
  Modelled from the spec: \<^verbatim>\<open>common.Record\<close>, whose declaration is not among the sources, is
  the index entry \<^verbatim>\<open>{ trace id, page offset, page length }\<close>. The finder reads its \<open>ID\<close> only.
\<close>

record Record =
  ID :: gobytes
  Start :: "64 word"
  Length :: "32 word"

text \<open>\<^verbatim>\<open>ObjectCombiner.Combine(dataEncoding, objs...)\<close> returns the combined object and a flag.\<close>

type_synonym ObjectCombiner = "string \<Rightarrow> gobytes list \<Rightarrow> gobytes \<times> bool"

text \<open>
  The constructors \<^verbatim>\<open>NewIterator\<close> and \<^verbatim>\<open>NewDedupingIterator\<close> and the method \<^verbatim>\<open>Next\<close> of
  the iterators they build are not among the sources: they are parameters. An iterator is
  a value of \<open>'it\<close>; \<^verbatim>\<open>Next\<close> returns \<^verbatim>\<open>(id, object, err)\<close> and the iterator after the call.
  \<^verbatim>\<open>NewIterator\<close> takes the page (the reader over it) and the finder's fixed \<^verbatim>\<open>objectRW\<close>.
\<close>

record 'it iterators =
  NewIterator :: "bytes \<Rightarrow> 'it"
  NewDedupingIterator :: "'it \<Rightarrow> ObjectCombiner \<Rightarrow> string \<Rightarrow> error + 'it"
  Next :: "'it \<Rightarrow> (gobytes \<times> gobytes \<times> error option) \<times> 'it"

text \<open>
  \<^verbatim>\<open>pagedFinder\<close>: the data reader \<open>r\<close> and the index reader are interface values over an
  immutable block, so each of their methods is a function of its arguments; a nil
  combiner is \<open>None\<close>. \<^verbatim>\<open>index.Find\<close> returns \<^verbatim>\<open>(record, i, err)\<close>, \<^verbatim>\<open>index.At\<close> returns
  \<^verbatim>\<open>(record, err)\<close>, a nil record being \<open>None\<close>.
\<close>

record pagedFinder =
  r_Read :: "Record list \<Rightarrow> error + bytes list"
  index_Find :: "gobytes \<Rightarrow> error + (Record option \<times> 64 word)"
  index_At :: "64 word \<Rightarrow> error + Record option"
  combiner :: "ObjectCombiner option"
  dataEncoding :: string

text \<open>The calls \<^verbatim>\<open>Find\<close> makes on the index reader and the data reader, in order.\<close>

datatype fcall = IndexFind gobytes | IndexAt "64 word" | DataRead "Record list"

text \<open>
  The loop of \<^verbatim>\<open>findOne\<close> over the iterator. It ends when \<^verbatim>\<open>Next\<close> returns an error or the
  wanted id; on an iterator that does neither it does not return (\<open>None\<close>). The target
  \<^verbatim>\<open>id\<close> is written \<open>tid\<close>.
\<close>

partial_function (option) findOne_loop ::
  "('it \<Rightarrow> (gobytes \<times> gobytes \<times> error option) \<times> 'it) \<Rightarrow> gobytes \<Rightarrow> 'it \<Rightarrow>
     (error + gobytes) option" where
  "findOne_loop nxt tid iter =
     (case nxt iter of
        ((foundID, b, err), iter') \<Rightarrow>
          if err = Some EOF then Some (Inr None)
          else if err \<noteq> None then Some (Inl (the err))
          else if bytes_Equal foundID tid then Some (Inr b)
          else findOne_loop nxt tid iter')"

definition pagedFinder_findOne ::
  "'it iterators \<Rightarrow> pagedFinder \<Rightarrow> gobytes \<Rightarrow> Record \<Rightarrow> (error + gobytes) option" where
  "pagedFinder_findOne E f tid record =
     (case r_Read f [record] of
        Inl err \<Rightarrow> Some (Inl err)
      | Inr pages \<Rightarrow>
          (case pages of
             [] \<Rightarrow> Some (Inl (ErrorString ''unexpected 0 length pages in findOne''))
           | page # ps \<Rightarrow>
               (case (case combiner f of
                        None \<Rightarrow> Inr (NewIterator E page)
                      | Some c \<Rightarrow> NewDedupingIterator E (NewIterator E page) c (dataEncoding f)) of
                  Inl err \<Rightarrow> Some (Inl err)
                | Inr iter \<Rightarrow> findOne_loop (Next E) tid iter)))"

text \<open>
  The loop of \<^verbatim>\<open>Find\<close>, entered with the record and the position that \<^verbatim>\<open>index.Find\<close>
  returned, \<open>bytesFound\<close> nil, and the calls made so far. The position is a Go \<^verbatim>\<open>int\<close>, a
  signed 64-bit machine integer: \<^verbatim>\<open>i++\<close> wraps from \<open>2^63 - 1\<close> to \<open>- 2^63\<close>, as \<open>i + 1\<close> does on
  a \<open>64 word\<close> (read by \<open>sint\<close>).
\<close>

partial_function (option) Find_loop ::
  "'it iterators \<Rightarrow> pagedFinder \<Rightarrow> gobytes \<Rightarrow> Record \<Rightarrow> 64 word \<Rightarrow> gobytes \<Rightarrow> fcall list \<Rightarrow>
     ((error + gobytes) \<times> fcall list) option" where
  "Find_loop E f tid record i bytesFound tr =
     (case pagedFinder_findOne E f tid record of
        None \<Rightarrow> None
      | Some (Inl err) \<Rightarrow> Some (Inl err, tr @ [DataRead [record]])
      | Some (Inr bytesOne) \<Rightarrow>
          (case combiner f of
             None \<Rightarrow> Some (Inr bytesOne, tr @ [DataRead [record]])
           | Some c \<Rightarrow>
               (case index_At f (i + 1) of
                  Inl err \<Rightarrow> Some (Inl err, tr @ [DataRead [record], IndexAt (i + 1)])
                | Inr None \<Rightarrow>
                    Some (Inr (fst (c (dataEncoding f) [bytesFound, bytesOne])),
                          tr @ [DataRead [record], IndexAt (i + 1)])
                | Inr (Some record') \<Rightarrow>
                    if \<not> bytes_Equal (ID record') tid
                    then Some (Inr (fst (c (dataEncoding f) [bytesFound, bytesOne])),
                               tr @ [DataRead [record], IndexAt (i + 1)])
                    else Find_loop E f tid record' (i + 1)
                           (fst (c (dataEncoding f) [bytesFound, bytesOne]))
                           (tr @ [DataRead [record], IndexAt (i + 1)]))))"

definition pagedFinder_Find ::
  "'it iterators \<Rightarrow> pagedFinder \<Rightarrow> gobytes \<Rightarrow> ((error + gobytes) \<times> fcall list) option" where
  "pagedFinder_Find E f tid =
     (case index_Find f tid of
        Inl err \<Rightarrow> Some (Inl err, [IndexFind tid])
      | Inr (None, i) \<Rightarrow> Some (Inr None, [IndexFind tid])
      | Inr (Some record, i) \<Rightarrow> Find_loop E f tid record i None [IndexFind tid])"

text \<open>
  The words of the specification, for comparing with the loops above.
  \<open>yields nxt iter objs\<close>: the iterator returns exactly the objects \<open>objs\<close>, then \<^verbatim>\<open>io.EOF\<close>.
  \<open>first_match tid objs\<close>: the object of the first entry whose id equals the target, nil
  when there is none. \<open>visit i rs\<close>: for each record of a run that starts at position \<open>i\<close>,
  read the record's page, then fetch the index entry after it. \<open>reads_objects E f r objs\<close>:
  the data reader returns at least one page for the record \<open>r\<close>, and the iterator that
  \<^verbatim>\<open>findOne\<close> builds over the first page (the deduping one when a combiner is set) yields
  the objects \<open>objs\<close>.
\<close>

fun yields ::
  "('it \<Rightarrow> (gobytes \<times> gobytes \<times> error option) \<times> 'it) \<Rightarrow> 'it \<Rightarrow> (gobytes \<times> gobytes) list \<Rightarrow> bool" where
  "yields nxt iter [] = (snd (snd (fst (nxt iter))) = Some EOF)"
| "yields nxt iter ((i, b) # xs) =
     (fst (nxt iter) = (i, b, None) \<and> yields nxt (snd (nxt iter)) xs)"

definition reads_objects ::
  "'it iterators \<Rightarrow> pagedFinder \<Rightarrow> Record \<Rightarrow> (gobytes \<times> gobytes) list \<Rightarrow> bool" where
  "reads_objects E f r objs =
     (case r_Read f [r] of
        Inl err \<Rightarrow> False
      | Inr pages \<Rightarrow>
          (case pages of
             [] \<Rightarrow> False
           | page # ps \<Rightarrow>
               (case (case combiner f of
                        None \<Rightarrow> Inr (NewIterator E page)
                      | Some c \<Rightarrow> NewDedupingIterator E (NewIterator E page) c (dataEncoding f)) of
                  Inl err \<Rightarrow> False
                | Inr iter \<Rightarrow> yields (Next E) iter objs)))"

fun first_match :: "gobytes \<Rightarrow> (gobytes \<times> gobytes) list \<Rightarrow> gobytes" where
  "first_match tid [] = None"
| "first_match tid ((i, b) # xs) = (if bytes_Equal i tid then b else first_match tid xs)"

fun visit :: "64 word \<Rightarrow> Record list \<Rightarrow> fcall list" where
  "visit i [] = []"
| "visit i (r # rs) = [DataRead [r], IndexAt (i + 1)] @ visit (i + 1) rs"

text \<open>
  A small block for running the finder: two pages, \<open>[3, 5]\<close> and \<open>[5, 9]\<close>, each byte \<open>x\<close> an
  object with id \<open>[x]\<close> and content \<open>[x, x]\<close>; an index of three records, the id \<open>[5]\<close>
  straddling the page boundary; a combiner that concatenates.
\<close>

definition list_iterators :: "(gobytes \<times> gobytes) list iterators" where
  "list_iterators =
     \<lparr>NewIterator = map (\<lambda>x. (Some [x], Some [x, x])),
      NewDedupingIterator = (\<lambda>iter c enc. Inr iter),
      Next = (\<lambda>iter. case iter of
                [] \<Rightarrow> ((None, None, Some EOF), [])
              | (i, b) # xs \<Rightarrow> ((i, b, None), xs))\<rparr>"

definition concat_combiner :: ObjectCombiner where
  "concat_combiner enc objs =
     (Some (concat (map (\<lambda>ob. case ob of None \<Rightarrow> [] | Some x \<Rightarrow> x) objs)), True)"

definition recA :: Record where "recA = \<lparr>ID = Some [5], Start = 0, Length = 2\<rparr>"

definition recB :: Record where "recB = \<lparr>ID = Some [5], Start = 2, Length = 2\<rparr>"

definition recC :: Record where "recC = \<lparr>ID = Some [9], Start = 2, Length = 2\<rparr>"

definition list_finder :: "ObjectCombiner option \<Rightarrow> pagedFinder" where
  "list_finder c =
     \<lparr>r_Read = (\<lambda>rs. Inr (map (\<lambda>r. if Start r = 0 then [3, 5] else [5, 9]) rs)),
      index_Find = (\<lambda>tid. if bytes_Equal tid (Some [5]) then Inr (Some recA, 0)
                          else if bytes_Equal tid (Some [9]) then Inr (Some recC, 2)
                          else Inr (None, -1)),
      index_At = (\<lambda>i. if i = 0 then Inr (Some recA) else if i = 1 then Inr (Some recB)
                       else if i = 2 then Inr (Some recC) else Inr None),
      combiner = c,
      dataEncoding = ''v1''\<rparr>"

text \<open>
  An index whose record for the id \<open>[5]\<close> sits at the largest position, \<open>2^63 - 1\<close>; the
  position after it is \<open>- 2^63\<close>, where a record with another id is found.
\<close>

definition wrap_finder :: pagedFinder where
  "wrap_finder =
     \<lparr>r_Read = (\<lambda>rs. Inr (map (\<lambda>r. [3, 5]) rs)),
      index_Find = (\<lambda>tid. if bytes_Equal tid (Some [5]) then Inr (Some recA, 0x7FFFFFFFFFFFFFFF)
                          else Inr (None, -1)),
      index_At = (\<lambda>i. if i = 0x7FFFFFFFFFFFFFFF then Inr (Some recA)
                       else if sint i = - 9223372036854775808 then Inr (Some recC)
                       else Inr None),
      combiner = Some concat_combiner,
      dataEncoding = ''v1''\<rparr>"


section \<open>Writing and copying a block (package encoding)\<close>







text \<open>
  Modelled from the spec: \<^verbatim>\<open>backend.BlockMeta\<close>, whose declaration is not among the
  sources, is the per-block manifest; the two functions read its block id, its tenant id
  and its bloom shard count (here already converted by \<^verbatim>\<open>int(...)\<close>).
\<close>

record BlockMeta =
  BlockID :: string
  TenantID :: string
  BloomShardCount :: int

text \<open>
  \<^verbatim>\<open>backend.Writer\<close> and \<^verbatim>\<open>backend.Reader\<close> are interfaces: records of their methods, each
  a transformer of one store \<open>'s\<close> (source and destination may be the same backend). A
  stream handed from \<^verbatim>\<open>StreamReader\<close> to \<^verbatim>\<open>StreamWriter\<close> is a value of \<open>'x\<close>; \<open>rd_Close\<close> is
  the \<^verbatim>\<open>Close\<close> of such a stream; a \<^verbatim>\<open>backend.AppendTracker\<close> is a value of \<open>'t\<close>. Every
  call is logged with the error it returned.
\<close>

datatype bcall =
    BWrite string string string bytes bool
  | BStreamWriter string string string int
  | BWriteBlockMeta BlockMeta
  | BRead string string string bool
  | BStreamReader string string string
  | BClose string
  | BAppend string string string bytes

type_synonym bevent = "bcall \<times> error option"















fun wrote :: "bevent \<Rightarrow> string option" where
  "wrote (BWrite name blockID tenantID buffer shouldCache, None) = Some name"
| "wrote (BStreamWriter name blockID tenantID sz, None) = Some name"
| "wrote (BAppend name blockID tenantID buffer, None) = Some name"
| "wrote ev = None"









section \<open>Error normalization of the gcs backend\<close>

text \<open>
  Modelled from the spec: \<^verbatim>\<open>readError\<close> of the gcs backend is not among the sources (its
  test is). The specification says: errors are normalized, object-not-found becomes the
  single canonical \<^verbatim>\<open>ErrDoesNotExist\<close>. The object-not-found error of the store is
  \<^verbatim>\<open>storage.ErrObjectNotExist\<close>; a nil error is \<open>None\<close>.
\<close>

definition readError :: "error option \<Rightarrow> error option" where
  "readError err = (if err = Some ErrObjectNotExist then Some ErrDoesNotExist else err)"

text \<open>\<^verbatim>\<open>TestReadError\<close> of gcs_test.go: the conjunction of its two assertions.\<close>

definition TestReadError :: bool where
  "TestReadError =
     (let errA = Some ErrObjectNotExist;
          errB = readError errA;
          a1 = (Some ErrDoesNotExist = errB);
          wups = Some (ErrorString ''wups'');
          errB' = readError wups;
          a2 = (wups = errB')
      in a1 \<and> a2)"


section \<open>Loading the configuration (cmd/tempo/main.go)\<close>

text \<open>
  The configuration types (\<^verbatim>\<open>app.Config\<close> and the types of the fields that \<^verbatim>\<open>loadConfig\<close>
  writes) are not among the sources. Each is a record with the fields the function names;
  all its other fields are the record's extension (\<open>more\<close>), a type parameter.
\<close>

record kv_Config =
  Store :: string

record 'k ring_Config =
  KVStore :: "'k kv_Config_scheme"
  ReplicationFactor :: int

record ('k, 'r) ring_LifecyclerConfig =
  RingConfig :: "('k, 'r) ring_Config_scheme"
  Addr :: string

record ('k, 'r, 'l) ingester_Config =
  LifecyclerConfig :: "('k, 'r, 'l) ring_LifecyclerConfig_scheme"

record ('k, 'r, 'l, 'i) app_Config =
  Target :: string
  Ingester :: "('k, 'r, 'l, 'i) ingester_Config_scheme"

text \<open>Modelled from the spec: \<^verbatim>\<open>app.All\<close> is the role \<^verbatim>\<open>all\<close> of \<^verbatim>\<open>-target\<close>.\<close>

definition All :: string where "All = ''all''"

text \<open>
  What \<^verbatim>\<open>loadConfig\<close> takes from outside, as parameters: the command line; \<^verbatim>\<open>fs.Parse\<close> of
  the private flag set, which may set \<^verbatim>\<open>configFile\<close> and \<^verbatim>\<open>configExpandEnv\<close> (its error is
  ignored); the configuration that \<^verbatim>\<open>RegisterFlagsAndApplyDefaults\<close> leaves; reading a file;
  expanding the environment; \<^verbatim>\<open>yaml.UnmarshalStrict\<close> into the configuration; and
  \<^verbatim>\<open>flag.Parse\<close>, which writes the command line's flags into the configuration or exits
  the process (\<open>None\<close>).
\<close>

record 'cfg loader =
  os_Args :: "string list"
  fs_Parse :: "string list \<Rightarrow> string \<times> bool \<Rightarrow> string \<times> bool"
  RegisterFlagsAndApplyDefaults :: 'cfg
  ioutil_ReadFile :: "string \<Rightarrow> error + string"
  envsubst_EvalEnv :: "string \<Rightarrow> error + string"
  yaml_UnmarshalStrict :: "string \<Rightarrow> 'cfg \<Rightarrow> error + 'cfg"
  flag_Parse :: "'cfg \<Rightarrow> 'cfg option"

text \<open>The loop that tries \<^verbatim>\<open>fs.Parse\<close> on every suffix of the arguments.\<close>

fun find_config_flags ::
  "(string list \<Rightarrow> string \<times> bool \<Rightarrow> string \<times> bool) \<Rightarrow> string list \<Rightarrow> string \<times> bool \<Rightarrow> string \<times> bool" where
  "find_config_flags parse [] v = v"
| "find_config_flags parse (a # args) v = find_config_flags parse args (parse (a # args) v)"

text \<open>The overlay with the config file, when one is given.\<close>

definition overlay_file ::
  "'cfg loader \<Rightarrow> string \<Rightarrow> bool \<Rightarrow> 'cfg \<Rightarrow> error + 'cfg" where
  "overlay_file L configFile configExpandEnv config =
     (if configFile \<noteq> [] then
        (case ioutil_ReadFile L configFile of
           Inl err \<Rightarrow> Inl (Errorf_w (''failed to read configFile '' @ configFile @ '': '') err)
         | Inr buff \<Rightarrow>
             (case (if configExpandEnv then
                      (case envsubst_EvalEnv L buff of
                         Inl err \<Rightarrow>
                           Inl (Errorf_w (''failed to expand env vars from configFile '' @ configFile @ '': '') err)
                       | Inr s \<Rightarrow> Inr s)
                    else Inr buff) of
                Inl err \<Rightarrow> Inl err
              | Inr buff' \<Rightarrow>
                  (case yaml_UnmarshalStrict L buff' config of
                     Inl err \<Rightarrow> Inl (Errorf_w (''failed to parse configFile '' @ configFile @ '': '') err)
                   | Inr config' \<Rightarrow> Inr config')))
      else Inr config)"

text \<open>
  \<open>loaded\<close> is \<^verbatim>\<open>loadConfig\<close> up to and including \<^verbatim>\<open>flag.Parse()\<close>: the configuration as
  loaded from the defaults, the file and the flags. \<^verbatim>\<open>loadConfig\<close> then forces the three
  values in single binary mode.
\<close>

definition loaded ::
  "'cfg loader \<Rightarrow> (error + 'cfg) option" where
  "loaded L =
     (case find_config_flags (fs_Parse L) (os_Args L) ([], False) of
        (configFile, configExpandEnv) \<Rightarrow>
          (case overlay_file L configFile configExpandEnv (RegisterFlagsAndApplyDefaults L) of
             Inl err \<Rightarrow> Some (Inl err)
           | Inr config \<Rightarrow>
               (case flag_Parse L config of
                  None \<Rightarrow> None
                | Some config' \<Rightarrow> Some (Inr config'))))"

definition loadConfig ::
  "('k, 'r, 'l, 'i, 'c) app_Config_scheme loader \<Rightarrow> (error + ('k, 'r, 'l, 'i, 'c) app_Config_scheme) option" where
  "loadConfig L =
     (case loaded L of
        None \<Rightarrow> None
      | Some (Inl err) \<Rightarrow> Some (Inl err)
      | Some (Inr config) \<Rightarrow>
          Some (Inr
            (if Target config = All then
               config\<lparr>Ingester := (Ingester config)\<lparr>LifecyclerConfig :=
                 (LifecyclerConfig (Ingester config))
                   \<lparr>RingConfig := (RingConfig (LifecyclerConfig (Ingester config)))
                      \<lparr>KVStore := (KVStore (RingConfig (LifecyclerConfig (Ingester config))))
                                    \<lparr>Store := ''inmemory''\<rparr>,
                       ReplicationFactor := 1\<rparr>,
                    Addr := ''127.0.0.1''\<rparr>\<rparr>\<rparr>
             else config)))"

text \<open>
  A loader for running \<^verbatim>\<open>loadConfig\<close>: the defaults name the target \<^verbatim>\<open>ingester\<close>, the file
  sets the ring's store, the command line sets the target \<^verbatim>\<open>all\<close>.
\<close>

definition cfg0 :: "(unit, unit, unit, unit) app_Config" where
  "cfg0 =
     \<lparr>Target = ''ingester'',
      Ingester = \<lparr>LifecyclerConfig =
        \<lparr>RingConfig = \<lparr>KVStore = \<lparr>Store = ''consul''\<rparr>, ReplicationFactor = 3\<rparr>,
         Addr = ''10.0.0.7''\<rparr>\<rparr>\<rparr>"

definition loader0 :: "(unit, unit, unit, unit) app_Config loader" where
  "loader0 =
     \<lparr>os_Args = [''-target=all'', ''-config.file=tempo.yaml''],
      fs_Parse = (\<lambda>args v. if take 13 (hd args) = ''-config.file='' then (drop 13 (hd args), snd v) else v),
      RegisterFlagsAndApplyDefaults = cfg0,
      ioutil_ReadFile = (\<lambda>path. if path = ''tempo.yaml'' then Inr ''memberlist'' else Inl ErrDoesNotExist),
      envsubst_EvalEnv = (\<lambda>s. Inr s),
      yaml_UnmarshalStrict = (\<lambda>buff c.
         Inr (c\<lparr>Ingester := (Ingester c)\<lparr>LifecyclerConfig := (LifecyclerConfig (Ingester c))
           \<lparr>RingConfig := (RingConfig (LifecyclerConfig (Ingester c)))
              \<lparr>KVStore := \<lparr>Store = buff\<rparr>\<rparr>\<rparr>\<rparr>\<rparr>)),
      flag_Parse = (\<lambda>c. Some (c\<lparr>Target := ''all''\<rparr>))\<rparr>"


section \<open>The sharded bloom filter and its check (cmd-gen-bloom.go)\<close>

text \<open>
  Modelled from the spec: the sharded bloom filter of package common (\<^verbatim>\<open>NewBloom\<close>, \<^verbatim>\<open>Add\<close>,
  \<^verbatim>\<open>ShardKeyForTraceID\<close>) is not among the sources. The specification says: the filter is
  sharded into N shards; the shard of an id is \<^verbatim>\<open>first4Bytes(id) mod N\<close>; each shard is a
  classical bit-array bloom. A shard is its bit array; the bit positions an id hashes
  to are a parameter \<open>locations\<close>, reduced modulo the size of the array. \<^verbatim>\<open>first4Bytes\<close> reads
  the first four bytes as a big-endian number.
\<close>

definition first4Bytes :: "bytes \<Rightarrow> nat" where
  "first4Bytes tid = foldl (\<lambda>a b. a * 256 + unat b) 0 (take 4 tid)"

definition ShardKeyForTraceID :: "bytes \<Rightarrow> nat \<Rightarrow> nat" where
  "ShardKeyForTraceID tid shardCount = first4Bytes tid mod shardCount"

type_synonym BloomFilter = "bool list"

definition BloomFilter_Add :: "(bytes \<Rightarrow> nat list) \<Rightarrow> bytes \<Rightarrow> BloomFilter \<Rightarrow> BloomFilter" where
  "BloomFilter_Add locations tid bits =
     foldl (\<lambda>bs h. bs[h mod length bs := True]) bits (locations tid)"

definition BloomFilter_Test :: "(bytes \<Rightarrow> nat list) \<Rightarrow> bytes \<Rightarrow> BloomFilter \<Rightarrow> bool" where
  "BloomFilter_Test locations tid bits =
     list_all (\<lambda>h. h mod length bits < length bits \<and> bits ! (h mod length bits)) (locations tid)"

definition NewBloom :: "nat \<Rightarrow> nat \<Rightarrow> BloomFilter list" where
  "NewBloom shardCount m = replicate shardCount (replicate m False)"

definition ShardedBloomFilter_Add ::
  "(bytes \<Rightarrow> nat list) \<Rightarrow> bytes \<Rightarrow> BloomFilter list \<Rightarrow> BloomFilter list" where
  "ShardedBloomFilter_Add locations tid blooms =
     (let shardKey = ShardKeyForTraceID tid (length blooms) in
      blooms[shardKey := BloomFilter_Add locations tid (blooms ! shardKey)])"

text \<open>
  \<^verbatim>\<open>testBloom\<close> of \<^verbatim>\<open>bloomCmd.Run\<close>, from the sources. With a shard count of zero the shard key
  divides by zero, with a negative one \<^verbatim>\<open>make\<close> of the slice of shards fails, and a key
  outside the slice of shards is an index out of range: all three panic.
\<close>

definition testBloom ::
  "(bytes \<Rightarrow> nat list) \<Rightarrow> BloomFilter list \<Rightarrow> BlockMeta \<Rightarrow> bytes \<Rightarrow> error option outcome" where
  "testBloom locations shardedBloomFilter meta tid =
     (if BloomShardCount meta \<le> 0 then Panics
      else
        (let key = ShardKeyForTraceID tid (nat (BloomShardCount meta)) in
         if key < length shardedBloomFilter then
           (if \<not> BloomFilter_Test locations tid (shardedBloomFilter ! key)
            then Returns (Some (ErrorString ''id not added to bloom, filter is likely corrupt''))
            else Returns None)
         else Panics))"

text \<open>
  \<open>present\<close>: the probe of an id in its shard succeeds. \<open>well_shaped m\<close>: every shard has
  \<open>m\<close> bits.
\<close>

definition present :: "(bytes \<Rightarrow> nat list) \<Rightarrow> bytes \<Rightarrow> BloomFilter list \<Rightarrow> bool" where
  "present locations tid blooms =
     BloomFilter_Test locations tid (blooms ! ShardKeyForTraceID tid (length blooms))"

definition well_shaped :: "nat \<Rightarrow> BloomFilter list \<Rightarrow> bool" where
  "well_shaped m blooms = (\<forall>s\<in>set blooms. length s = m)"

text \<open>Two hash positions per id, for running the filter.\<close>

definition two_locations :: "bytes \<Rightarrow> nat list" where
  "two_locations tid = [first4Bytes tid, 7 * first4Bytes tid + 3]"


section \<open>Theorems\<close>

subsection \<open>The cache decorator\<close>

text \<open>
  C10. \<^verbatim>\<open>ReadRange\<close> of the cache decorator hands the call to the next reader with the
  same arguments and returns what it returns: the one call made is that \<^verbatim>\<open>ReadRange\<close>,
  no call goes to the cache, and the store is the one the next reader left. The same
  holds of \<^verbatim>\<open>List\<close>, \<^verbatim>\<open>Append\<close> and \<^verbatim>\<open>CloseAppend\<close>, so that of the data operations only
  \<^verbatim>\<open>Read\<close> and \<^verbatim>\<open>Write\<close> reach the cache.
\<close>

theorem ReadRange_uncached:
  "readerWriter_ReadRange r name keypath offset buffer w =
     (fst (rr_ReadRange (nextReader r) name keypath offset buffer (st w)),
      \<lparr>st = snd (rr_ReadRange (nextReader r) name keypath offset buffer (st w)),
       calls = calls w @ [NextReadRange name keypath offset buffer]\<rparr>)
   \<and> filter is_cache_call (calls (snd (readerWriter_ReadRange r name keypath offset buffer w)))
       = filter is_cache_call (calls w)
   \<and> readerWriter_List r keypath w =
     (fst (rr_List (nextReader r) keypath (st w)),
      \<lparr>st = snd (rr_List (nextReader r) keypath (st w)), calls = calls w @ [NextList keypath]\<rparr>)
   \<and> readerWriter_Append r name keypath tracker buffer w =
     (fst (rw_Append (nextWriter r) name keypath tracker buffer (st w)),
      \<lparr>st = snd (rw_Append (nextWriter r) name keypath tracker buffer (st w)),
       calls = calls w @ [NextAppend name keypath buffer]\<rparr>)
   \<and> readerWriter_CloseAppend r tracker w =
     (fst (rw_CloseAppend (nextWriter r) tracker (st w)),
      \<lparr>st = snd (rw_CloseAppend (nextWriter r) tracker (st w)),
       calls = calls w @ [NextCloseAppend]\<rparr>)"
  by (simp add: readerWriter_ReadRange_def readerWriter_List_def readerWriter_Append_def
        readerWriter_CloseAppend_def did_def is_cache_call_def split: prod.splits)

text \<open>
  C5. \<^verbatim>\<open>Read\<close> of the cache decorator touches the cache only when \<open>shouldCache\<close> is true.
  With \<open>shouldCache\<close> false its one call is \<^verbatim>\<open>Read\<close> of the next reader (with
  \<open>shouldCache\<close> false), and the store is the one that call left. With \<open>shouldCache\<close>
  true the first call is \<^verbatim>\<open>cache.Fetch\<close> of the one key; on a hit nothing else is called
  and the cached value is returned; on a miss the next reader is called, and the cache is
  populated, with the bytes read under the same key, exactly when both that call and
  \<^verbatim>\<open>ReadAllWithEstimate\<close> returned no error.
\<close>

theorem Read_cache_only_when_shouldCache:
  "(\<not> shouldCache \<longrightarrow>
      calls (snd (readerWriter_Read rall r name keypath shouldCache w))
        = calls w @ [NextRead name keypath False]
      \<and> st (snd (readerWriter_Read rall r name keypath shouldCache w))
        = snd (rr_Read (nextReader r) name keypath False (st w)))
   \<and> (shouldCache \<longrightarrow>
      (case c_Fetch (cache r) [key keypath name] (st w) of
         ((found, vals, missing), s1) \<Rightarrow>
           if found \<noteq> [] then
             snd (readerWriter_Read rall r name keypath shouldCache w)
               = \<lparr>st = s1, calls = calls w @ [CacheFetch [key keypath name]]\<rparr>
             \<and> fst (readerWriter_Read rall r name keypath shouldCache w)
               = (case vals of
                    [] \<Rightarrow> Panics
                  | v # vs \<Rightarrow> Returns (Some (BytesReader v), int (length v), None))
           else
             (case rr_Read (nextReader r) name keypath False s1 of
                (Inl err, s2) \<Rightarrow>
                  readerWriter_Read rall r name keypath shouldCache w
                    = (Returns (None, 0, Some err),
                       \<lparr>st = s2,
                        calls = calls w @ [CacheFetch [key keypath name],
                                           NextRead name keypath False]\<rparr>)
              | (Inr (object, sz), s2) \<Rightarrow>
                  (case rall object sz of
                     (b, None) \<Rightarrow>
                       readerWriter_Read rall r name keypath shouldCache w
                         = (Returns (Some (BytesReader b), sz, None),
                            \<lparr>st = c_Store (cache r) [key keypath name] [b] s2,
                             calls = calls w @ [CacheFetch [key keypath name],
                                                NextRead name keypath False,
                                                CacheStore [key keypath name] [b]]\<rparr>)
                   | (b, Some err) \<Rightarrow>
                       readerWriter_Read rall r name keypath shouldCache w
                         = (Returns (Some (BytesReader b), sz, Some err),
                            \<lparr>st = s2,
                             calls = calls w @ [CacheFetch [key keypath name],
                                                NextRead name keypath False]\<rparr>)))))"
proof (cases shouldCache)
  case False
  then show ?thesis
    by (simp add: readerWriter_Read_def Read_delegate_def did_def Let_def
             split: prod.splits sum.splits)
next
  case True
  then show ?thesis
    by (simp add: readerWriter_Read_def Read_delegate_def did_def Let_def
             split: prod.splits sum.splits option.splits list.splits)
qed

text \<open>
  The in-memory instance: an uncached read delegates only; a cached read of an object that
  is not in the cache fetches, delegates and stores; the read after it is a hit.
\<close>

theorem Read_cache_only_when_shouldCache_witness:
  "readerWriter_Read mem_rall mem_rw ''index'' [''t'', ''b''] False mem0
     = (Returns (Some (BytesReader [1, 2, 3]), 3, None),
        \<lparr>st = st mem0, calls = [NextRead ''index'' [''t'', ''b''] False]\<rparr>)
   \<and> readerWriter_Read mem_rall mem_rw ''index'' [''t'', ''b''] True mem0
     = (Returns (Some (BytesReader [1, 2, 3]), 3, None),
        \<lparr>st = \<lparr>cached = [(''t:b:index'', [1, 2, 3])], objects = objects (st mem0)\<rparr>,
         calls = [CacheFetch [''t:b:index''], NextRead ''index'' [''t'', ''b''] False,
                  CacheStore [''t:b:index''] [[1, 2, 3]]]\<rparr>)
   \<and> calls (snd (readerWriter_Read mem_rall mem_rw ''index'' [''t'', ''b''] True
        (snd (readerWriter_Read mem_rall mem_rw ''index'' [''t'', ''b''] True mem0))))
     = [CacheFetch [''t:b:index''], NextRead ''index'' [''t'', ''b''] False,
        CacheStore [''t:b:index''] [[1, 2, 3]], CacheFetch [''t:b:index'']]"
  using Read_cache_only_when_shouldCache
          [where rall = mem_rall and r = mem_rw and name = "''index''"
             and keypath = "[''t'', ''b'']" and shouldCache = False and w = mem0]
        Read_cache_only_when_shouldCache
          [where rall = mem_rall and r = mem_rw and name = "''index''"
             and keypath = "[''t'', ''b'']" and shouldCache = True and w = mem0]
  by (simp add: readerWriter_Read_def Read_delegate_def did_def Let_def mem_rw_def
        mem_rall_def mem0_def mem_Cache_def mem_RawReader_def key_def)

text \<open>
  C6. \<^verbatim>\<open>Write\<close> of the cache decorator first reads the data to its end; when that
  fails it returns the error and calls nothing. Otherwise, with \<open>shouldCache\<close> true it
  stores the bytes in the cache under \<^verbatim>\<open>strings.Join(keypath, ":") + ":" + name\<close> and then
  calls \<^verbatim>\<open>Write\<close> of the next writer (on the store the cache left); with \<open>shouldCache\<close>
  false the one call is \<^verbatim>\<open>Write\<close> of the next writer and the cache is not touched. The
  next writer is always called with \<open>shouldCache\<close> false.
\<close>

theorem Write_cache_store_before_delegate:
  "(case rall data sz of
      (b, None) \<Rightarrow>
        (shouldCache \<longrightarrow>
           readerWriter_Write rall r name keypath data sz shouldCache w
             = (fst (rw_Write (nextWriter r) name keypath (BytesReader b) (int (length b)) False
                      (c_Store (cache r) [strings_Join keypath '':'' @ '':'' @ name] [b] (st w))),
                \<lparr>st = snd (rw_Write (nextWriter r) name keypath (BytesReader b)
                             (int (length b)) False
                             (c_Store (cache r) [strings_Join keypath '':'' @ '':'' @ name] [b] (st w))),
                 calls = calls w @ [CacheStore [strings_Join keypath '':'' @ '':'' @ name] [b],
                                    NextWrite name keypath b (int (length b)) False]\<rparr>))
        \<and> (\<not> shouldCache \<longrightarrow>
           readerWriter_Write rall r name keypath data sz shouldCache w
             = (fst (rw_Write (nextWriter r) name keypath (BytesReader b) (int (length b)) False (st w)),
                \<lparr>st = snd (rw_Write (nextWriter r) name keypath (BytesReader b)
                             (int (length b)) False (st w)),
                 calls = calls w @ [NextWrite name keypath b (int (length b)) False]\<rparr>))
    | (b, Some err) \<Rightarrow>
        readerWriter_Write rall r name keypath data sz shouldCache w = (Some err, w))"
  by (simp add: readerWriter_Write_def key_def did_def Let_def split: prod.splits option.splits)

theorem Write_cache_store_before_delegate_witness:
  "readerWriter_Write mem_rall mem_rw ''index'' [''t'', ''b''] (BytesReader [7]) 1 True mem0
     = (None,
        \<lparr>st = \<lparr>cached = [(''t:b:index'', [7])],
                objects = (([''t'', ''b''], ''index''), [7]) # objects (st mem0)\<rparr>,
         calls = [CacheStore [''t:b:index''] [[7]],
                  NextWrite ''index'' [''t'', ''b''] [7] 1 False]\<rparr>)
   \<and> readerWriter_Write mem_rall mem_rw ''index'' [''t'', ''b''] (BytesReader [7]) 1 False mem0
     = (None,
        \<lparr>st = \<lparr>cached = [],
                objects = (([''t'', ''b''], ''index''), [7]) # objects (st mem0)\<rparr>,
         calls = [NextWrite ''index'' [''t'', ''b''] [7] 1 False]\<rparr>)
   \<and> readerWriter_Write mem_rall mem_rw ''index'' [''t'', ''b''] (ExtReader ()) 1 True mem0
     = (Some (ErrorString ''unexpected EOF''), mem0)"
  using Write_cache_store_before_delegate
          [where rall = mem_rall and r = mem_rw and name = "''index''" and data = "BytesReader [7]"
             and sz = 1 and keypath = "[''t'', ''b'']" and shouldCache = True and w = mem0]
        Write_cache_store_before_delegate
          [where rall = mem_rall and r = mem_rw and name = "''index''" and data = "BytesReader [7]"
             and sz = 1 and keypath = "[''t'', ''b'']" and shouldCache = False and w = mem0]
        Write_cache_store_before_delegate
          [where rall = mem_rall and r = mem_rw and name = "''index''" and data = "ExtReader ()"
             and sz = 1 and keypath = "[''t'', ''b'']" and shouldCache = True and w = mem0]
  by (simp add: mem_rw_def mem_rall_def mem0_def mem_Cache_def mem_RawWriter_def)


subsection \<open>The paged finder\<close>

lemma findOne_loop_yields:
  "yields nxt iter xs \<Longrightarrow> findOne_loop nxt tid iter = Some (Inr (first_match tid xs))"
proof (induction xs arbitrary: iter)
  case Nil
  then show ?case
    by (subst findOne_loop.simps) (auto split: prod.splits)
next
  case (Cons x xs)
  obtain i b where x: "x = (i, b)" by (cases x)
  from Cons.prems x have n: "fst (nxt iter) = (i, b, None)" and y: "yields nxt (snd (nxt iter)) xs"
    by simp_all
  from Cons.IH [OF y] n show ?case
    by (subst findOne_loop.simps) (auto simp: x split: prod.splits)
qed

lemma Find_loop_run:
  assumes c: "combiner f = Some c"
  shows "length bs = Suc (length rs) \<Longrightarrow>
    (\<forall>k<length rs. index_At f (i + 1 + of_nat k) = Inr (Some (rs ! k)) \<and> bytes_Equal (ID (rs ! k)) tid) \<Longrightarrow>
    (index_At f (i + 1 + of_nat (length rs)) = Inr None \<or>
      (\<exists>r. index_At f (i + 1 + of_nat (length rs)) = Inr (Some r) \<and> \<not> bytes_Equal (ID r) tid)) \<Longrightarrow>
    (\<forall>k\<le>length rs. pagedFinder_findOne E f tid ((rec0 # rs) ! k) = Some (Inr (bs ! k))) \<Longrightarrow>
    Find_loop E f tid rec0 i acc tr =
      Some (Inr (foldl (\<lambda>a b. fst (c (dataEncoding f) [a, b])) acc bs), tr @ visit i (rec0 # rs))"
proof (induction rs arbitrary: rec0 i acc tr bs)
  case Nil
  then obtain b0 where bs: "bs = [b0]"
    by (cases bs) auto
  from Nil.prems(4) bs have one: "pagedFinder_findOne E f tid rec0 = Some (Inr b0)"
    by simp
  from Nil.prems(3) show ?case
    by (subst Find_loop.simps) (auto simp: one c bs)
next
  case (Cons r rs)
  then obtain b0 bs' where bs: "bs = b0 # bs'" and len: "length bs' = Suc (length rs)"
    by (cases bs) auto
  from Cons.prems(4) bs have one: "pagedFinder_findOne E f tid rec0 = Some (Inr b0)"
    by auto
  from Cons.prems(2) have at: "index_At f (i + 1) = Inr (Some r)" and eq: "bytes_Equal (ID r) tid"
    by auto
  have run: "\<forall>k<length rs. index_At f (i + 1 + 1 + of_nat k) = Inr (Some (rs ! k)) \<and> bytes_Equal (ID (rs ! k)) tid"
  proof (intro allI impI)
    fix k assume "k < length rs"
    then have "Suc k < length (r # rs)" by simp
    with Cons.prems(2) have "index_At f (i + 1 + of_nat (Suc k)) = Inr (Some ((r # rs) ! Suc k)) \<and> bytes_Equal (ID ((r # rs) ! Suc k)) tid"
      by blast
    moreover have "i + 1 + of_nat (Suc k) = i + 1 + 1 + of_nat k" by simp
    ultimately show "index_At f (i + 1 + 1 + of_nat k) = Inr (Some (rs ! k)) \<and> bytes_Equal (ID (rs ! k)) tid"
      by (simp only: nth_Cons_Suc)
  qed
  have stop: "index_At f (i + 1 + 1 + of_nat (length rs)) = Inr None \<or>
      (\<exists>r. index_At f (i + 1 + 1 + of_nat (length rs)) = Inr (Some r) \<and> \<not> bytes_Equal (ID r) tid)"
  proof -
    have "i + 1 + of_nat (length (r # rs)) = i + 1 + 1 + of_nat (length rs)" by simp
    with Cons.prems(3) show ?thesis by (simp only:)
  qed
  have ones: "\<forall>k\<le>length rs. pagedFinder_findOne E f tid ((r # rs) ! k) = Some (Inr (bs' ! k))"
  proof (intro allI impI)
    fix k assume "k \<le> length rs"
    then have "Suc k \<le> length (r # rs)" by simp
    with Cons.prems(4) have "pagedFinder_findOne E f tid ((rec0 # r # rs) ! Suc k) = Some (Inr (bs ! Suc k))"
      by blast
    then show "pagedFinder_findOne E f tid ((r # rs) ! k) = Some (Inr (bs' ! k))"
      by (simp add: bs)
  qed
  from Cons.IH [OF len run stop ones, of "fst (c (dataEncoding f) [acc, b0])" "tr @ [DataRead [rec0], IndexAt (i + 1)]"]
  show ?case
    by (subst Find_loop.simps) (simp add: one c at eq bs)
qed

text \<open>
  C3. When \<^verbatim>\<open>index.Find\<close> returns no record and no error, \<^verbatim>\<open>Find\<close> returns a nil slice
  and a nil error, and has called nothing but \<^verbatim>\<open>index.Find\<close>.
\<close>

theorem Find_absent_is_nil_nil:
  "index_Find f tid = Inr (None, i) \<Longrightarrow> pagedFinder_Find E f tid = Some (Inr None, [IndexFind tid])"
  by (simp add: pagedFinder_Find_def)

theorem Find_absent_is_nil_nil_witness:
  "index_Find (list_finder None) (Some [7]) = Inr (None, -1)
   \<and> pagedFinder_Find list_iterators (list_finder None) (Some [7]) = Some (Inr None, [IndexFind (Some [7])])"
proof -
  have h: "index_Find (list_finder None) (Some [7]) = Inr (None, -1)"
    by (simp add: list_finder_def bytes_Equal_def)
  from h Find_absent_is_nil_nil [OF h] show ?thesis by simp
qed

lemma findOne_reads_objects:
  "reads_objects E f r objs \<Longrightarrow> pagedFinder_findOne E f tid r = Some (Inr (first_match tid objs))"
  by (auto simp: reads_objects_def pagedFinder_findOne_def findOne_loop_yields
           split: sum.splits list.splits option.splits)

text \<open>
  C2. Let \<^verbatim>\<open>index.Find\<close> return the record \<open>rec0\<close> at position \<open>i\<close>. Positions are Go
  \<^verbatim>\<open>int\<close>s and advance with wrap-around, as in the code.

  With a nil combiner, \<^verbatim>\<open>Find\<close> returns what \<^verbatim>\<open>findOne\<close> returns for \<open>rec0\<close>, after the two
  calls \<^verbatim>\<open>index.Find\<close> and \<^verbatim>\<open>dataReader.Read([rec0])\<close>: no further index entry is fetched.

  With or without a combiner, when the data reader returns a page for a record and the
  iterator over that page yields the objects \<open>objs\<close>, \<^verbatim>\<open>findOne\<close> returns the first object
  of the page whose id equals the target (nil when there is none).

  With a combiner \<open>c\<close>: let the entries at the positions \<open>i + 1, ..., i + length rs\<close> be the
  records \<open>rs\<close>, all with the target's id, let the entry after them be missing (the end
  of the index) or have another id, and let the page of the \<open>k\<close>-th record of
  \<open>rec0 # rs\<close> yield the objects \<open>objss ! k\<close>. Then \<^verbatim>\<open>Find\<close> returns, having fetched
  each record's page, the matching objects of these pages combined from the left,
  starting from nil; its calls are \<^verbatim>\<open>index.Find\<close> and then, for each record of the run in
  order, the read of its page followed by \<^verbatim>\<open>index.At\<close> of the next position.
\<close>

theorem Find_combines_matching_records:
  "(combiner f = None \<longrightarrow> index_Find f tid = Inr (Some rec0, i) \<longrightarrow>
      pagedFinder_Find E f tid
        = map_option (\<lambda>res. (res, [IndexFind tid, DataRead [rec0]])) (pagedFinder_findOne E f tid rec0))
   \<and> (reads_objects E f r objs \<longrightarrow>
      pagedFinder_findOne E f tid r = Some (Inr (first_match tid objs)))
   \<and> (combiner f = Some c \<longrightarrow> index_Find f tid = Inr (Some rec0, i) \<longrightarrow>
        length objss = Suc (length rs) \<longrightarrow>
        (\<forall>k<length rs. index_At f (i + 1 + of_nat k) = Inr (Some (rs ! k)) \<and> bytes_Equal (ID (rs ! k)) tid) \<longrightarrow>
        (index_At f (i + 1 + of_nat (length rs)) = Inr None \<or>
          (\<exists>r. index_At f (i + 1 + of_nat (length rs)) = Inr (Some r) \<and> \<not> bytes_Equal (ID r) tid)) \<longrightarrow>
        (\<forall>k\<le>length rs. reads_objects E f ((rec0 # rs) ! k) (objss ! k)) \<longrightarrow>
      pagedFinder_Find E f tid
        = Some (Inr (foldl (\<lambda>a b. fst (c (dataEncoding f) [a, b])) None (map (first_match tid) objss)),
                IndexFind tid # visit i (rec0 # rs)))"
proof (intro conjI impI)
  assume "combiner f = None" and "index_Find f tid = Inr (Some rec0, i)"
  then show "pagedFinder_Find E f tid
        = map_option (\<lambda>res. (res, [IndexFind tid, DataRead [rec0]])) (pagedFinder_findOne E f tid rec0)"
    by (simp add: pagedFinder_Find_def, subst Find_loop.simps) (simp split: option.splits sum.splits)
next
  assume "reads_objects E f r objs"
  then show "pagedFinder_findOne E f tid r = Some (Inr (first_match tid objs))"
    by (rule findOne_reads_objects)
next
  assume c: "combiner f = Some c" and f: "index_Find f tid = Inr (Some rec0, i)"
    and len: "length objss = Suc (length rs)"
    and run: "\<forall>k<length rs. index_At f (i + 1 + of_nat k) = Inr (Some (rs ! k)) \<and> bytes_Equal (ID (rs ! k)) tid"
    and stop: "index_At f (i + 1 + of_nat (length rs)) = Inr None \<or>
          (\<exists>r. index_At f (i + 1 + of_nat (length rs)) = Inr (Some r) \<and> \<not> bytes_Equal (ID r) tid)"
    and pages: "\<forall>k\<le>length rs. reads_objects E f ((rec0 # rs) ! k) (objss ! k)"
  have len': "length (map (first_match tid) objss) = Suc (length rs)"
    using len by simp
  have ones: "\<forall>k\<le>length rs. pagedFinder_findOne E f tid ((rec0 # rs) ! k)
                = Some (Inr (map (first_match tid) objss ! k))"
  proof (intro allI impI)
    fix k assume k: "k \<le> length rs"
    with pages have "reads_objects E f ((rec0 # rs) ! k) (objss ! k)" by blast
    from findOne_reads_objects [OF this, of tid] k len
    show "pagedFinder_findOne E f tid ((rec0 # rs) ! k) = Some (Inr (map (first_match tid) objss ! k))"
      by simp
  qed
  from Find_loop_run [OF c len' run stop ones, of None "[IndexFind tid]"] f
  show "pagedFinder_Find E f tid
        = Some (Inr (foldl (\<lambda>a b. fst (c (dataEncoding f) [a, b])) None (map (first_match tid) objss)),
                IndexFind tid # visit i (rec0 # rs))"
    by (simp add: pagedFinder_Find_def)
qed

text \<open>
  The small block: without a combiner the object of the first record is returned; with
  the concatenating combiner the two records of the id \<open>[5]\<close> are combined and the third
  index entry ends the run. In the index whose record sits at position \<open>2^63 - 1\<close> the
  next entry fetched is the one at \<open>- 2^63\<close>.
\<close>

theorem Find_combines_matching_records_witness:
  "pagedFinder_Find list_iterators (list_finder None) (Some [5])
     = Some (Inr (Some [5, 5]), [IndexFind (Some [5]), DataRead [recA]])
   \<and> pagedFinder_Find list_iterators (list_finder (Some concat_combiner)) (Some [5])
     = Some (Inr (Some [5, 5, 5, 5]),
             [IndexFind (Some [5]), DataRead [recA], IndexAt 1, DataRead [recB], IndexAt 2])
   \<and> pagedFinder_Find list_iterators wrap_finder (Some [5])
     = Some (Inr (Some [5, 5]),
             [IndexFind (Some [5]), DataRead [recA], IndexAt (- 0x8000000000000000)])
   \<and> sint (- 0x8000000000000000 :: 64 word) = - 9223372036854775808"
proof -
  let ?n = "list_finder None" and ?c = "list_finder (Some concat_combiner)"
  let ?o1 = "[(Some [3], Some [3, 3]), (Some [5], Some [5, 5 :: byte])]"
  let ?o2 = "[(Some [5], Some [5, 5]), (Some [9], Some [9, 9 :: byte])]"
  have n: "combiner ?n = None" and c: "combiner ?c = Some concat_combiner"
    and w: "combiner wrap_finder = Some concat_combiner"
    by (simp_all add: list_finder_def wrap_finder_def)
  have fnd: "index_Find (list_finder x) (Some [5]) = Inr (Some recA, 0)" for x
    by (simp add: list_finder_def bytes_Equal_def)
  have fndw: "index_Find wrap_finder (Some [5]) = Inr (Some recA, 0x7FFFFFFFFFFFFFFF)"
    by (simp add: wrap_finder_def bytes_Equal_def)
  have rA: "reads_objects list_iterators (list_finder x) recA ?o1" for x
    by (cases x) (simp_all add: reads_objects_def list_finder_def list_iterators_def recA_def)
  have rB: "reads_objects list_iterators ?c recB ?o2"
    by (simp add: reads_objects_def list_finder_def list_iterators_def recB_def)
  have rW: "reads_objects list_iterators wrap_finder recA ?o1"
    by (simp add: reads_objects_def wrap_finder_def list_iterators_def)
  have len: "length [?o1, ?o2] = Suc (length [recB])"
    by simp
  have run: "\<forall>k<length [recB]. index_At ?c (0 + 1 + of_nat k) = Inr (Some ([recB] ! k))
               \<and> bytes_Equal (ID ([recB] ! k)) (Some [5])"
    by (simp add: list_finder_def recB_def bytes_Equal_def)
  have stop: "index_At ?c (0 + 1 + of_nat (length [recB])) = Inr None
      \<or> (\<exists>r. index_At ?c (0 + 1 + of_nat (length [recB])) = Inr (Some r) \<and> \<not> bytes_Equal (ID r) (Some [5]))"
    by (simp add: list_finder_def recC_def bytes_Equal_def)
  have pages: "\<forall>k\<le>length [recB]. reads_objects list_iterators ?c ((recA # [recB]) ! k) ([?o1, ?o2] ! k)"
    using rA [of "Some concat_combiner"] rB by (simp add: le_Suc_eq all_conj_distrib)
  have lenw: "length [?o1] = Suc (length ([] :: Record list))"
    by simp
  have runw: "\<forall>k<length ([] :: Record list).
                index_At wrap_finder (0x7FFFFFFFFFFFFFFF + 1 + of_nat k) = Inr (Some ([] ! k))
                \<and> bytes_Equal (ID ([] ! k)) (Some [5])"
    by simp
  have stopw: "index_At wrap_finder (0x7FFFFFFFFFFFFFFF + 1 + of_nat (length ([] :: Record list))) = Inr None
      \<or> (\<exists>r. index_At wrap_finder (0x7FFFFFFFFFFFFFFF + 1 + of_nat (length ([] :: Record list))) = Inr (Some r)
              \<and> \<not> bytes_Equal (ID r) (Some [5]))"
    by (simp add: wrap_finder_def recC_def bytes_Equal_def)
  have pagesw: "\<forall>k\<le>length ([] :: Record list).
                  reads_objects list_iterators wrap_finder ((recA # []) ! k) ([?o1] ! k)"
    using rW by simp
  note T = Find_combines_matching_records [where E = list_iterators and tid = "Some [5]"]
  from T [THEN conjunct1, THEN mp, OF n, THEN mp, OF fnd]
       T [THEN conjunct2, THEN conjunct1, THEN mp, OF rA [of None]]
  have A: "pagedFinder_Find list_iterators ?n (Some [5])
             = Some (Inr (Some [5, 5]), [IndexFind (Some [5]), DataRead [recA]])"
    by (simp add: bytes_Equal_def)
  from T [THEN conjunct2, THEN conjunct2, THEN mp, OF c, THEN mp, OF fnd, THEN mp, OF len,
          THEN mp, OF run, THEN mp, OF stop, THEN mp, OF pages]
  have B: "pagedFinder_Find list_iterators ?c (Some [5])
             = Some (Inr (Some [5, 5, 5, 5]),
                     [IndexFind (Some [5]), DataRead [recA], IndexAt 1, DataRead [recB], IndexAt 2])"
    by (simp add: concat_combiner_def bytes_Equal_def)
  from T [THEN conjunct2, THEN conjunct2, THEN mp, OF w, THEN mp, OF fndw, THEN mp, OF lenw,
          THEN mp, OF runw, THEN mp, OF stopw, THEN mp, OF pagesw]
  have C: "pagedFinder_Find list_iterators wrap_finder (Some [5])
             = Some (Inr (Some [5, 5]),
                     [IndexFind (Some [5]), DataRead [recA], IndexAt (- 0x8000000000000000)])"
    by (simp add: concat_combiner_def bytes_Equal_def wrap_finder_def)
  have D: "sint (- 0x8000000000000000 :: 64 word) = - 9223372036854775808"
    by simp
  from A B C D show ?thesis by blast
qed


subsection \<open>Writing and copying a block\<close>








lemma wrote_mem: "(c, None) \<in> set evs \<Longrightarrow> wrote (c, None) = Some n \<Longrightarrow> Some n \<in> set (map wrote evs)"
  by force

















subsection \<open>Error normalization\<close>

text \<open>
  C7. \<^verbatim>\<open>readError\<close> maps \<^verbatim>\<open>storage.ErrObjectNotExist\<close> to \<^verbatim>\<open>backend.ErrDoesNotExist\<close> and
  returns every other error as it is.
\<close>

theorem readError_normalizes:
  "readError (Some ErrObjectNotExist) = Some ErrDoesNotExist
   \<and> (\<forall>err. err \<noteq> Some ErrObjectNotExist \<longrightarrow> readError err = err)"
  by (simp add: readError_def)

theorem readError_normalizes_witness: "TestReadError"
  using readError_normalizes [THEN conjunct2, THEN spec, of "Some (ErrorString ''wups'')"]
    readError_normalizes [THEN conjunct1]
  by (simp add: TestReadError_def)

subsection \<open>Loading the configuration\<close>

text \<open>
  C9. When the configuration as loaded has the target \<^verbatim>\<open>all\<close>, \<^verbatim>\<open>loadConfig\<close> returns it
  with the ring's KV store \<^verbatim>\<open>inmemory\<close>, the replication factor 1 and the lifecycler's
  address \<^verbatim>\<open>127.0.0.1\<close>, whatever the file and the flags gave for the three; the target
  and every other field, at every level of the nesting, are as loaded.
\<close>

theorem loadConfig_single_binary:
  "loaded L = Some (Inr config) \<Longrightarrow> Target config = All \<Longrightarrow>
     (\<exists>c. loadConfig L = Some (Inr c)
        \<and> Store (KVStore (RingConfig (LifecyclerConfig (Ingester c)))) = ''inmemory''
        \<and> ReplicationFactor (RingConfig (LifecyclerConfig (Ingester c))) = 1
        \<and> Addr (LifecyclerConfig (Ingester c)) = ''127.0.0.1''
        \<and> Target c = Target config
        \<and> app_Config.more c = app_Config.more config
        \<and> ingester_Config.more (Ingester c) = ingester_Config.more (Ingester config)
        \<and> ring_LifecyclerConfig.more (LifecyclerConfig (Ingester c))
            = ring_LifecyclerConfig.more (LifecyclerConfig (Ingester config))
        \<and> ring_Config.more (RingConfig (LifecyclerConfig (Ingester c)))
            = ring_Config.more (RingConfig (LifecyclerConfig (Ingester config)))
        \<and> kv_Config.more (KVStore (RingConfig (LifecyclerConfig (Ingester c))))
            = kv_Config.more (KVStore (RingConfig (LifecyclerConfig (Ingester config)))))"
  by (simp add: loadConfig_def)

theorem loadConfig_single_binary_witness:
  "loaded loader0 =
     Some (Inr \<lparr>Target = ''all'',
      Ingester = \<lparr>LifecyclerConfig =
        \<lparr>RingConfig = \<lparr>KVStore = \<lparr>Store = ''memberlist''\<rparr>, ReplicationFactor = 3\<rparr>,
         Addr = ''10.0.0.7''\<rparr>\<rparr>\<rparr>)
   \<and> loadConfig loader0 =
     Some (Inr \<lparr>Target = ''all'',
      Ingester = \<lparr>LifecyclerConfig =
        \<lparr>RingConfig = \<lparr>KVStore = \<lparr>Store = ''inmemory''\<rparr>, ReplicationFactor = 1\<rparr>,
         Addr = ''127.0.0.1''\<rparr>\<rparr>\<rparr>)"
proof -
  let ?c = "\<lparr>Target = ''all'',
      Ingester = \<lparr>LifecyclerConfig =
        \<lparr>RingConfig = \<lparr>KVStore = \<lparr>Store = ''memberlist''\<rparr>, ReplicationFactor = 3\<rparr>,
         Addr = ''10.0.0.7''\<rparr>\<rparr>\<rparr> :: (unit, unit, unit, unit) app_Config"
  have l: "loaded loader0 = Some (Inr ?c)"
    by (simp add: loaded_def overlay_file_def loader0_def cfg0_def)
  have t: "Target ?c = All"
    by (simp add: All_def)
  from loadConfig_single_binary [OF l t] obtain c where c: "loadConfig loader0 = Some (Inr c)"
    and f: "Store (KVStore (RingConfig (LifecyclerConfig (Ingester c)))) = ''inmemory''"
      "ReplicationFactor (RingConfig (LifecyclerConfig (Ingester c))) = 1"
      "Addr (LifecyclerConfig (Ingester c)) = ''127.0.0.1''"
      "Target c = Target ?c"
    by blast
  from f have "c = \<lparr>Target = ''all'',
      Ingester = \<lparr>LifecyclerConfig =
        \<lparr>RingConfig = \<lparr>KVStore = \<lparr>Store = ''inmemory''\<rparr>, ReplicationFactor = 1\<rparr>,
         Addr = ''127.0.0.1''\<rparr>\<rparr>\<rparr>"
    by (cases c; cases "Ingester c"; cases "LifecyclerConfig (Ingester c)";
        cases "RingConfig (LifecyclerConfig (Ingester c))";
        cases "KVStore (RingConfig (LifecyclerConfig (Ingester c)))") simp
  with l c show ?thesis by simp
qed

subsection \<open>The sharded bloom filter\<close>

lemma Add_length: "length (BloomFilter_Add locations tid bits) = length bits"
proof -
  have "length (foldl (\<lambda>bs h. bs[h mod length bs := True]) bits hs) = length bits" for hs
    by (induction hs arbitrary: bits) simp_all
  then show ?thesis by (simp add: BloomFilter_Add_def)
qed

lemma fold_set_mono:
  "i < length bits \<Longrightarrow> bits ! i \<Longrightarrow> foldl (\<lambda>bs h. bs[h mod length bs := True]) bits hs ! i"
proof (induction hs arbitrary: bits)
  case Nil
  then show ?case by simp
next
  case (Cons a hs)
  from Cons.prems have "bits[a mod length bits := True] ! i"
    by (cases "a mod length bits = i") simp_all
  with Cons.prems(1) show ?case
    by (simp add: Cons.IH)
qed

lemma fold_set_sets:
  "0 < length bits \<Longrightarrow> h \<in> set hs \<Longrightarrow>
     foldl (\<lambda>bs h. bs[h mod length bs := True]) bits hs ! (h mod length bits)"
proof (induction hs arbitrary: bits)
  case Nil
  then show ?case by simp
next
  case (Cons a hs)
  let ?b = "bits[a mod length bits := True]"
  show ?case
  proof (cases "h = a")
    case True
    have "?b ! (a mod length bits)" using Cons.prems(1) by simp
    with fold_set_mono [of "a mod length bits" ?b hs] Cons.prems(1) True show ?thesis by simp
  next
    case False
    with Cons.prems have "h \<in> set hs" by simp
    with Cons.IH [of ?b] Cons.prems(1) show ?thesis by simp
  qed
qed

lemma Test_after_Add:
  "0 < length bits \<Longrightarrow> BloomFilter_Test locations tid (BloomFilter_Add locations tid bits)"
  unfolding BloomFilter_Test_def list_all_iff Add_length
  by (auto simp: BloomFilter_Add_def fold_set_sets)

lemma Test_mono:
  "BloomFilter_Test locations tid bits \<Longrightarrow> BloomFilter_Test locations tid (BloomFilter_Add locations tid' bits)"
  unfolding BloomFilter_Test_def list_all_iff Add_length
  by (auto simp: BloomFilter_Add_def fold_set_mono)

lemma Sharded_Add_shape:
  "well_shaped m blooms \<Longrightarrow> well_shaped m (ShardedBloomFilter_Add locations tid blooms)"
proof (cases "blooms = []")
  case True
  then show ?thesis
    by (simp add: well_shaped_def ShardedBloomFilter_Add_def)
next
  case False
  assume w: "well_shaped m blooms"
  let ?k = "ShardKeyForTraceID tid (length blooms)"
  from False have "?k < length blooms"
    by (simp add: ShardKeyForTraceID_def)
  with w have "length (BloomFilter_Add locations tid (blooms ! ?k)) = m"
    by (simp add: well_shaped_def Add_length)
  with w show ?thesis
    using set_update_subset_insert [of blooms ?k "BloomFilter_Add locations tid (blooms ! ?k)"]
    by (auto simp: well_shaped_def ShardedBloomFilter_Add_def Let_def)
qed

lemma Sharded_Add_length: "length (ShardedBloomFilter_Add locations tid blooms) = length blooms"
  by (simp add: ShardedBloomFilter_Add_def Let_def)

lemma present_after_Add:
  assumes "0 < length blooms" "0 < m" "well_shaped m blooms"
  shows "present locations tid (ShardedBloomFilter_Add locations tid blooms)"
proof -
  let ?k = "ShardKeyForTraceID tid (length blooms)"
  have k: "?k < length blooms" using assms(1) by (simp add: ShardKeyForTraceID_def)
  with assms(3) have "length (blooms ! ?k) = m" by (simp add: well_shaped_def)
  with assms(2) have "BloomFilter_Test locations tid (BloomFilter_Add locations tid (blooms ! ?k))"
    by (simp add: Test_after_Add)
  with k show ?thesis
    by (simp add: present_def Sharded_Add_length) (simp add: ShardedBloomFilter_Add_def Let_def)
qed

lemma present_mono:
  assumes "0 < length blooms" "present locations tid blooms"
  shows "present locations tid (ShardedBloomFilter_Add locations tid' blooms)"
proof -
  let ?k = "ShardKeyForTraceID tid (length blooms)" and ?k' = "ShardKeyForTraceID tid' (length blooms)"
  have k: "?k < length blooms" "?k' < length blooms" using assms(1) by (simp_all add: ShardKeyForTraceID_def)
  show ?thesis
  proof (cases "?k = ?k'")
    case True
    with k assms(2) show ?thesis
      by (simp add: present_def Sharded_Add_length) (simp add: ShardedBloomFilter_Add_def Let_def Test_mono)
  next
    case False
    with k assms(2) show ?thesis
      by (simp add: present_def Sharded_Add_length) (simp add: ShardedBloomFilter_Add_def Let_def)
  qed
qed

lemma present_foldl:
  "0 < length blooms \<Longrightarrow> 0 < m \<Longrightarrow> well_shaped m blooms \<Longrightarrow>
     (tid \<in> set ids \<or> present locations tid blooms) \<Longrightarrow>
     present locations tid (foldl (\<lambda>b x. ShardedBloomFilter_Add locations x b) blooms ids)"
proof (induction ids arbitrary: blooms)
  case Nil
  then show ?case by simp
next
  case (Cons a ids)
  let ?b = "ShardedBloomFilter_Add locations a blooms"
  have l: "0 < length ?b" using Cons.prems(1) by (simp add: Sharded_Add_length)
  have s: "well_shaped m ?b" using Cons.prems(3) by (rule Sharded_Add_shape)
  have "tid \<in> set ids \<or> present locations tid ?b"
    using Cons.prems present_after_Add [of blooms m locations a] present_mono [of blooms locations tid a]
    by auto
  from Cons.IH [OF l Cons.prems(2) s this] show ?case by simp
qed

lemma foldl_Add_length:
  "length (foldl (\<lambda>b x. ShardedBloomFilter_Add locations x b) blooms ids) = length blooms"
  by (induction ids arbitrary: blooms) (simp_all add: Sharded_Add_length)

text \<open>
  C4. The bloom filter has no false negatives: after the ids \<open>ids\<close> are added to a new
  filter of \<^verbatim>\<open>BloomShardCount\<close> shards (at least one) of \<open>m\<close> bits (at least one), the check
  \<^verbatim>\<open>testBloom\<close>, which probes the shard \<^verbatim>\<open>ShardKeyForTraceID(id, BloomShardCount)\<close>, returns
  no error for every id among them.
\<close>

theorem bloom_no_false_negatives:
  "0 < BloomShardCount meta \<Longrightarrow> 0 < m \<Longrightarrow> tid \<in> set ids \<Longrightarrow>
     testBloom locations
       (foldl (\<lambda>b x. ShardedBloomFilter_Add locations x b) (NewBloom (nat (BloomShardCount meta)) m) ids)
       meta tid = Returns None"
proof -
  assume n: "0 < BloomShardCount meta" and m: "0 < m" and i: "tid \<in> set ids"
  let ?n = "nat (BloomShardCount meta)"
  let ?B = "foldl (\<lambda>b x. ShardedBloomFilter_Add locations x b) (NewBloom ?n m) ids"
  have len: "length ?B = ?n" by (simp add: foldl_Add_length NewBloom_def)
  have "well_shaped m (NewBloom ?n m)" by (simp add: well_shaped_def NewBloom_def)
  with n m i have "present locations tid ?B"
    by (intro present_foldl) (simp_all add: NewBloom_def)
  with n len show ?thesis
    by (simp add: testBloom_def present_def Let_def ShardKeyForTraceID_def)
qed

theorem bloom_no_false_negatives_witness:
  "testBloom two_locations
     (foldl (\<lambda>b x. ShardedBloomFilter_Add two_locations x b) (NewBloom 2 5) [[0, 0, 0, 1], [0, 0, 0, 2]])
     \<lparr>BlockID = ''b'', TenantID = ''t'', BloomShardCount = 2\<rparr> [0, 0, 0, 2] = Returns None
   \<and> foldl (\<lambda>b x. ShardedBloomFilter_Add two_locations x b) (NewBloom 2 5) [[0, 0, 0, 1], [0, 0, 0, 2]]
       = [[False, False, True, False, False], [True, True, False, False, False]]
   \<and> testBloom two_locations
        (foldl (\<lambda>b x. ShardedBloomFilter_Add two_locations x b) (NewBloom 2 5) [[0, 0, 0, 1], [0, 0, 0, 2]])
        \<lparr>BlockID = ''b'', TenantID = ''t'', BloomShardCount = 2\<rparr> [0, 0, 0, 4]
       = Returns (Some (ErrorString ''id not added to bloom, filter is likely corrupt''))"
proof -
  have A: "foldl (\<lambda>b x. ShardedBloomFilter_Add two_locations x b) (NewBloom 2 5) [[0, 0, 0, 1], [0, 0, 0, 2]]
       = [[False, False, True, False, False], [True, True, False, False, False]]"
    by code_simp
  have B: "testBloom two_locations
        [[False, False, True, False, False], [True, True, False, False, False]]
        \<lparr>BlockID = ''b'', TenantID = ''t'', BloomShardCount = 2\<rparr> [0, 0, 0, 4]
       = Returns (Some (ErrorString ''id not added to bloom, filter is likely corrupt''))"
    by code_simp
  from bloom_no_false_negatives [where meta = "\<lparr>BlockID = ''b'', TenantID = ''t'', BloomShardCount = 2\<rparr>"
      and m = 5 and tid = "[0, 0, 0, 2]" and ids = "[[0, 0, 0, 1], [0, 0, 0, 2]]" and locations = two_locations]
  have "testBloom two_locations
     (foldl (\<lambda>b x. ShardedBloomFilter_Add two_locations x b) (NewBloom 2 5) [[0, 0, 0, 1], [0, 0, 0, 2]])
     \<lparr>BlockID = ''b'', TenantID = ''t'', BloomShardCount = 2\<rparr> [0, 0, 0, 2] = Returns None"
    by simp
  with A B show ?thesis by simp
qed

end
